theory Spec2Isabelle
  imports Main "HOL-Library.Sublist"
begin

section \<open>JavaScript strings\<close>

text \<open>
  A JavaScript string is a sequence of UTF-16 code units, and \<open>length\<close>, \<open>trim\<close> and the
  regular expressions of the two rules (none has the \<open>u\<close> flag) all work on code units.
  A code unit is modelled by its number.
  \<open>js\<close> turns an ASCII literal of the source into its code units.
\<close>

type_synonym jsstring = "nat list"

definition js :: "string \<Rightarrow> jsstring" where
  "js s = map of_char s"

definition DQ :: nat where
  "DQ = 0x22"

definition SQ :: nat where
  "SQ = 0x27"

definition LF :: nat where
  "LF = 0x0A"

text \<open>The class \<open>LineTerminator\<close> of ECMAScript: what \<open>.\<close> refuses and where \<open>^\<close> and
  \<open>$\<close> hold under the \<open>m\<close> flag.\<close>

definition is_line_terminator :: "nat \<Rightarrow> bool" where
  "is_line_terminator c = (c = 0x0A \<or> c = 0x0D \<or> c = 0x2028 \<or> c = 0x2029)"

text \<open>The class \<open>\s\<close> (white space and line terminators); \<open>trim\<close> removes the same set.\<close>

definition is_space :: "nat \<Rightarrow> bool" where
  "is_space c =
     (c = 0x09 \<or> c = 0x0A \<or> c = 0x0B \<or> c = 0x0C \<or> c = 0x0D \<or> c = 0x20 \<or> c = 0xA0
      \<or> c = 0x1680 \<or> (0x2000 \<le> c \<and> c \<le> 0x200A) \<or> c = 0x2028 \<or> c = 0x2029
      \<or> c = 0x202F \<or> c = 0x205F \<or> c = 0x3000 \<or> c = 0xFEFF)"

definition is_lower :: "nat \<Rightarrow> bool" where
  "is_lower c = (0x61 \<le> c \<and> c \<le> 0x7A)"

definition is_upper :: "nat \<Rightarrow> bool" where
  "is_upper c = (0x41 \<le> c \<and> c \<le> 0x5A)"

definition is_digit :: "nat \<Rightarrow> bool" where
  "is_digit c = (0x30 \<le> c \<and> c \<le> 0x39)"

text \<open>The class \<open>\w\<close>, which decides where \<open>\b\<close> holds.\<close>

definition is_word_char :: "nat \<Rightarrow> bool" where
  "is_word_char c = (is_lower c \<or> is_upper c \<or> is_digit c \<or> c = 0x5F)"

definition is_quote :: "nat \<Rightarrow> bool" where
  "is_quote c = (c = DQ \<or> c = SQ)"

text \<open>\<open>s.endsWith(t)\<close>.\<close>

definition endsWith :: "jsstring \<Rightarrow> jsstring \<Rightarrow> bool" where
  "endsWith s t = (length t \<le> length s \<and> drop (length s - length t) s = t)"

text \<open>\<open>xs.join("\n")\<close>.\<close>

fun join_lines :: "jsstring list \<Rightarrow> jsstring" where
  "join_lines [] = []"
| "join_lines [x] = x"
| "join_lines (x # y # ys) = x @ LF # join_lines (y # ys)"

text \<open>\<open>s.trim()\<close>.\<close>

definition trim :: "jsstring \<Rightarrow> jsstring" where
  "trim s = rev (dropWhile is_space (rev (dropWhile is_space s)))"

text \<open>
  \<open>s.split(/\s+/)\<close>: the pieces between the maximal runs of white space. A run at the
  start or at the end leaves an empty piece there, and the empty string gives one empty
  piece.
\<close>

function split_ws :: "jsstring \<Rightarrow> jsstring list" where
  "split_ws s =
     takeWhile (\<lambda>c. \<not> is_space c) s #
       (case dropWhile (\<lambda>c. \<not> is_space c) s of
          [] \<Rightarrow> []
        | c # cs \<Rightarrow> split_ws (dropWhile is_space cs))"
  by pat_completeness auto
termination
proof (relation "measure length")
  show "wf (measure length)" by simp
next
  fix s :: jsstring and c cs
  assume d: "dropWhile (\<lambda>c. \<not> is_space c) s = c # cs"
  have "length (dropWhile is_space cs) \<le> length cs"
    by (rule length_dropWhile_le)
  moreover have "length (c # cs) \<le> length s"
    using length_dropWhile_le [of "\<lambda>c. \<not> is_space c" s] d by simp
  ultimately show "(dropWhile is_space cs, s) \<in> measure length"
    by simp
qed

declare split_ws.simps [simp del]

text \<open>The decimal digits of a number, as a template literal prints a count.\<close>

function show_nat :: "nat \<Rightarrow> jsstring" where
  "show_nat n = (if n < 10 then [0x30 + n] else show_nat (n div 10) @ [0x30 + n mod 10])"
  by pat_completeness auto
termination
  by (relation "measure (\<lambda>n. n)") auto

declare show_nat.simps [simp del]

section \<open>Diagnostics and rule parameters\<close>

text \<open>
  What a rule hands to \<open>onError\<close>. A rule's result is the list of the diagnostics it
  reported, in the order of the calls.
\<close>

record diagnostic =
  lineNumber :: nat
  detail :: jsstring
  context' :: jsstring

text \<open>
  The \<open>params\<close> object of markdownlint. \<open>frontMatterLines\<close> may be missing, which the
  rules read as the empty array (\<open>params.frontMatterLines || []\<close>).
\<close>

record params =
  name :: jsstring
  lines :: "jsstring list"
  frontMatterLines :: "jsstring list option"

definition front_matter_lines :: "params \<Rightarrow> jsstring list" where
  "front_matter_lines p = (case frontMatterLines p of None \<Rightarrow> [] | Some l \<Rightarrow> l)"

section \<open>The rule skill-length\<close>

definition MAX_LINES :: nat where
  "MAX_LINES = 500"

definition MAX_WORDS :: nat where
  "MAX_WORDS = 8000"

definition WARNING_LINES :: nat where
  "WARNING_LINES = 300"

definition WARNING_WORDS :: nat where
  "WARNING_WORDS = 5000"

definition totalLines :: "params \<Rightarrow> nat" where
  "totalLines p = length (front_matter_lines p) + length (lines p)"

text \<open>\<open>content.split(/\s+/).filter(Boolean).length\<close>: the empty pieces are dropped.\<close>

definition wordCount :: "params \<Rightarrow> nat" where
  "wordCount p = length (filter (\<lambda>w. w \<noteq> []) (split_ws (join_lines (lines p))))"

definition line_count_error :: "nat \<Rightarrow> diagnostic" where
  "line_count_error n =
     \<lparr>lineNumber = 1,
      detail = js ''Line count: '' @ show_nat n @ js '' (max: '' @ show_nat MAX_LINES
        @ js ''). Move detailed content to references/ subdirectory.'',
      context' = show_nat n @ js '' lines''\<rparr>"

definition line_count_warning :: "nat \<Rightarrow> diagnostic" where
  "line_count_warning n =
     \<lparr>lineNumber = 1,
      detail = js ''Line count: '' @ show_nat n @ js '' (recommended: <''
        @ show_nat WARNING_LINES @ js ''). Consider moving content to references/.'',
      context' = show_nat n @ js '' lines (warning)''\<rparr>"

definition word_count_error :: "nat \<Rightarrow> diagnostic" where
  "word_count_error n =
     \<lparr>lineNumber = 1,
      detail = js ''Word count: '' @ show_nat n @ js '' (max: '' @ show_nat MAX_WORDS
        @ js ''). Move detailed content to references/ subdirectory.'',
      context' = show_nat n @ js '' words''\<rparr>"

definition word_count_warning :: "nat \<Rightarrow> diagnostic" where
  "word_count_warning n =
     \<lparr>lineNumber = 1,
      detail = js ''Word count: '' @ show_nat n @ js '' (recommended: <''
        @ show_nat WARNING_WORDS @ js ''). Consider moving content to references/.'',
      context' = show_nat n @ js '' words (warning)''\<rparr>"

definition check_line_count :: "nat \<Rightarrow> diagnostic list" where
  "check_line_count n =
     (if n > MAX_LINES then [line_count_error n]
      else if n > WARNING_LINES then [line_count_warning n]
      else [])"

definition check_word_count :: "nat \<Rightarrow> diagnostic list" where
  "check_word_count n =
     (if n > MAX_WORDS then [word_count_error n]
      else if n > WARNING_WORDS then [word_count_warning n]
      else [])"

definition skillLength :: "params \<Rightarrow> diagnostic list" where
  "skillLength p =
     (if \<not> endsWith (name p) (js ''SKILL.md'') then []
      else check_line_count (totalLines p) @ check_word_count (wordCount p))"

section \<open>Regular expressions of the rule skill-frontmatter\<close>

text \<open>
  The regular expressions are matched the way ECMAScript matches them: by backtracking,
  the alternatives of each piece tried in its order of priority. A piece of a pattern is
  a function from the rest of the input to the list of the ways it can match there, the
  first to be tried first; a capturing piece pairs the captured text with the rest. The
  match of a whole pattern is the first way in which all its pieces match.
\<close>

definition first_match :: "'a list \<Rightarrow> 'a option" where
  "first_match ways = (case ways of [] \<Rightarrow> None | g # _ \<Rightarrow> Some g)"

text \<open>A property of the first way to match, when there is one.\<close>

definition first_is :: "('a \<Rightarrow> bool) \<Rightarrow> 'a list \<Rightarrow> bool" where
  "first_is P ways = (case ways of [] \<Rightarrow> True | g # _ \<Rightarrow> P g)"

text \<open>A literal text.\<close>

definition lit :: "jsstring \<Rightarrow> jsstring \<Rightarrow> jsstring list" where
  "lit k s = (if prefix k s then [drop (length k) s] else [])"

text \<open>\<open>\s*\<close>, greedy: the longest run first, then one character fewer at a time.\<close>

fun ws_star :: "jsstring \<Rightarrow> jsstring list" where
  "ws_star [] = [[]]"
| "ws_star (c # cs) = (if is_space c then ws_star cs @ [c # cs] else [c # cs])"

text \<open>\<open>(.+)\<close>, greedy: one or more characters that are no line terminators.\<close>

fun dot_plus :: "jsstring \<Rightarrow> (jsstring \<times> jsstring) list" where
  "dot_plus [] = []"
| "dot_plus (c # cs) =
     (if is_line_terminator c then []
      else map (\<lambda>(g, r). (c # g, r)) (dot_plus cs) @ [([c], cs)])"

text \<open>\<open>([\s\S]*?)\<close>, lazy: any characters, the shortest run first.\<close>

fun any_star_lazy :: "jsstring \<Rightarrow> (jsstring \<times> jsstring) list" where
  "any_star_lazy [] = [([], [])]"
| "any_star_lazy (c # cs) = ([], c # cs) # map (\<lambda>(g, r). (c # g, r)) (any_star_lazy cs)"

text \<open>\<open>$\<close> under the \<open>m\<close> flag: at the end of the input or before a line terminator.\<close>

fun eol :: "jsstring \<Rightarrow> bool" where
  "eol [] = True"
| "eol (c # cs) = is_line_terminator c"

text \<open>\<open>[a-z-]+\<close>, greedy.\<close>

definition is_key_char :: "nat \<Rightarrow> bool" where
  "is_key_char c = (is_lower c \<or> c = 0x2D)"

fun key_plus :: "jsstring \<Rightarrow> jsstring list" where
  "key_plus [] = []"
| "key_plus (c # cs) = (if is_key_char c then key_plus cs @ [cs] else [])"

text \<open>The lookahead \<open>(?=\n[a-z-]+:|$)\<close>: a following line that opens with a key, or \<open>$\<close>.\<close>

definition lookahead_key_or_eol :: "jsstring \<Rightarrow> bool" where
  "lookahead_key_or_eol s =
     ([r3. r1 \<leftarrow> lit [LF] s, r2 \<leftarrow> key_plus r1, r3 \<leftarrow> lit [0x3A] r2] \<noteq> [] \<or> eol s)"

text \<open>
  \<open>String.prototype.match\<close> with a pattern that opens with \<open>^\<close> under the \<open>m\<close> flag:
  the start positions are tried from left to right, and \<open>^\<close> holds at the start of the
  input and after a line terminator. \<open>f\<close> matches the rest of the pattern at a position
  and gives the captured group.
\<close>

fun match_at_line_start :: "(jsstring \<Rightarrow> 'a option) \<Rightarrow> bool \<Rightarrow> jsstring \<Rightarrow> 'a option" where
  "match_at_line_start f bol [] = (if bol then f [] else None)"
| "match_at_line_start f bol (c # cs) =
     (case (if bol then f (c # cs) else None) of
        Some g \<Rightarrow> Some g
      | None \<Rightarrow> match_at_line_start f (is_line_terminator c) cs)"

text \<open>\<open>key:\s*(.+)$\<close> at a position: the group of the first way to match.\<close>

definition field_at :: "jsstring \<Rightarrow> jsstring \<Rightarrow> jsstring option" where
  "field_at key s =
     first_match
       [g. r1 \<leftarrow> lit (key @ [0x3A]) s, r2 \<leftarrow> ws_star r1, (g, r3) \<leftarrow> dot_plus r2, eol r3]"

text \<open>\<open>frontmatter.match(/^name:\s*(.+)$/m)\<close> and the same for \<open>description\<close>: group 1.\<close>

definition match_field :: "jsstring \<Rightarrow> jsstring \<Rightarrow> jsstring option" where
  "match_field key s = match_at_line_start (field_at key) True s"

text \<open>\<open>description:\s*>\s*\n([\s\S]*?)(?=\n[a-z-]+:|$)\<close> at a position.\<close>

definition block_at :: "jsstring \<Rightarrow> jsstring option" where
  "block_at s =
     first_match
       [g. r1 \<leftarrow> lit (js ''description:'') s, r2 \<leftarrow> ws_star r1, r3 \<leftarrow> lit [0x3E] r2,
           r4 \<leftarrow> ws_star r3, r5 \<leftarrow> lit [LF] r4, (g, r6) \<leftarrow> any_star_lazy r5,
           lookahead_key_or_eol r6]"

text \<open>\<open>frontmatter.match(/^description:\s*>\s*\n([\s\S]*?)(?=\n[a-z-]+:|$)/m)\<close>: group 1.\<close>

definition match_block :: "jsstring \<Rightarrow> jsstring option" where
  "match_block s = match_at_line_start block_at True s"

text \<open>
  \<open>s.replace(/^["']|["']$/g, "")\<close>. Without the \<open>m\<close> flag \<open>^\<close> holds at the start of
  the string only and \<open>$\<close> at its end only, so the matches are a quote that is the first
  character and a quote that is the last character (the same character once, in a
  string of length one).
\<close>

definition strip_quotes :: "jsstring \<Rightarrow> jsstring" where
  "strip_quotes s =
     (let s1 = (case s of [] \<Rightarrow> [] | c # cs \<Rightarrow> if is_quote c then cs else c # cs)
      in if s1 \<noteq> [] \<and> is_quote (last s1) then butlast s1 else s1)"

text \<open>\<open>s.replace(/\n\s*/g, " ")\<close>: each line feed, with the white space after it, becomes
  one blank.\<close>

function replace_nl_ws :: "jsstring \<Rightarrow> jsstring" where
  "replace_nl_ws [] = []"
| "replace_nl_ws (c # cs) =
     (if c = LF then 0x20 # replace_nl_ws (dropWhile is_space cs) else c # replace_nl_ws cs)"
  by pat_completeness auto
termination
  by (relation "measure length") (auto simp: less_Suc_eq_le length_dropWhile_le)

text \<open>\<open>/^[a-z][a-z0-9-]*$/.test(s)\<close>.\<close>

definition is_kebab :: "jsstring \<Rightarrow> bool" where
  "is_kebab s =
     (case s of
        [] \<Rightarrow> False
      | c # cs \<Rightarrow> is_lower c \<and> list_all (\<lambda>d. is_lower d \<or> is_digit d \<or> d = 0x2D) cs)"

text \<open>
  A letter of a pattern under the \<open>i\<close> flag: without the \<open>u\<close> flag a lower-case ASCII
  letter of the pattern matches itself and its upper-case form, and no other code unit.
\<close>

definition ci_eq :: "nat \<Rightarrow> nat \<Rightarrow> bool" where
  "ci_eq p c = (c = p \<or> c + 0x20 = p)"

fun ci_lit :: "jsstring \<Rightarrow> jsstring \<Rightarrow> jsstring list" where
  "ci_lit [] s = [s]"
| "ci_lit (p # ps) [] = []"
| "ci_lit (p # ps) (c # cs) = (if ci_eq p c then ci_lit ps cs else [])"

text \<open>\<open>\b\<close> between a character and the rest of the input; \<open>prev\<close> tells whether the
  character before the position is a word character.\<close>

fun word_boundary :: "bool \<Rightarrow> jsstring \<Rightarrow> bool" where
  "word_boundary prev [] = prev"
| "word_boundary prev (c # cs) = (prev \<noteq> is_word_char c)"

text \<open>\<open>\b(anthropic|claude)\b\<close> at a position. Both words end with a letter, so a word
  character stands before the closing \<open>\b\<close>.\<close>

definition reserved_at :: "bool \<Rightarrow> jsstring \<Rightarrow> bool" where
  "reserved_at prev s =
     (word_boundary prev s \<and>
      [r. r \<leftarrow> ci_lit (js ''anthropic'') s @ ci_lit (js ''claude'') s, word_boundary True r] \<noteq> [])"

text \<open>\<open>/\b(anthropic|claude)\b/i.test(s)\<close>: some position matches.\<close>

fun reserved_from :: "bool \<Rightarrow> jsstring \<Rightarrow> bool" where
  "reserved_from prev [] = reserved_at prev []"
| "reserved_from prev (c # cs) =
     (reserved_at prev (c # cs) \<or> reserved_from (is_word_char c) cs)"

definition has_reserved_word :: "jsstring \<Rightarrow> bool" where
  "has_reserved_word s = reserved_from False s"

text \<open>\<open>/--/.test(s)\<close>.\<close>

fun has_double_hyphen :: "jsstring \<Rightarrow> bool" where
  "has_double_hyphen [] = False"
| "has_double_hyphen (c # cs) = (lit (js ''--'') (c # cs) \<noteq> [] \<or> has_double_hyphen cs)"

text \<open>\<open>[^>]+\<close>, greedy: one or more characters other than \<open>>\<close>.\<close>

fun not_gt_plus :: "jsstring \<Rightarrow> jsstring list" where
  "not_gt_plus [] = []"
| "not_gt_plus (c # cs) = (if c = 0x3E then [] else not_gt_plus cs @ [cs])"

text \<open>\<open>/<[^>]+>/.test(s)\<close>.\<close>

fun has_xml_tag :: "jsstring \<Rightarrow> bool" where
  "has_xml_tag [] = False"
| "has_xml_tag (c # cs) =
     ([r3. r1 \<leftarrow> lit [0x3C] (c # cs), r2 \<leftarrow> not_gt_plus r1, r3 \<leftarrow> lit [0x3E] r2] \<noteq> []
      \<or> has_xml_tag cs)"

section \<open>The rule skill-frontmatter\<close>

text \<open>
  \<open>require("path")\<close>: the path library of Node is no part of the repository and depends on
  the platform, so the rule takes its two functions as a parameter.
\<close>

record path_module =
  dirname :: "jsstring \<Rightarrow> jsstring"
  basename :: "jsstring \<Rightarrow> jsstring"

text \<open>
  For the examples: \<open>dirname\<close> and \<open>basename\<close> as Node computes them on a relative path
  whose components are separated by single slashes, such as \<open>skills/my-skill/SKILL.md\<close>:
  the text before the last slash, and the text after it.
\<close>

definition slash_path :: path_module where
  "slash_path =
     \<lparr>dirname = (\<lambda>p. rev (drop 1 (dropWhile (\<lambda>c. c \<noteq> 0x2F) (rev p)))),
      basename = (\<lambda>p. rev (takeWhile (\<lambda>c. c \<noteq> 0x2F) (rev p)))\<rparr>"

definition missing_frontmatter :: diagnostic where
  "missing_frontmatter =
     \<lparr>lineNumber = 1,
      detail = js ''SKILL.md must have YAML frontmatter (---)'',
      context' = js ''Missing frontmatter''\<rparr>"

definition missing_name :: diagnostic where
  "missing_name =
     \<lparr>lineNumber = 2,
      detail = js ''Frontmatter must include '' @ [DQ] @ js ''name'' @ [DQ] @ js '' field'',
      context' = js ''Missing name''\<rparr>"

definition invalid_name_format :: "jsstring \<Rightarrow> diagnostic" where
  "invalid_name_format nm =
     \<lparr>lineNumber = 2,
      detail = js ''Skill name must be kebab-case: '' @ [DQ] @ nm @ [DQ],
      context' = js ''Invalid name format''\<rparr>"

definition name_too_long :: "jsstring \<Rightarrow> diagnostic" where
  "name_too_long nm =
     \<lparr>lineNumber = 2,
      detail = js ''Skill name exceeds 64 characters (current: '' @ show_nat (length nm)
        @ js '')'',
      context' = js ''Name too long''\<rparr>"

definition reserved_word_in_name :: "jsstring \<Rightarrow> diagnostic" where
  "reserved_word_in_name nm =
     \<lparr>lineNumber = 2,
      detail = js ''Skill name cannot contain reserved words '' @ [DQ] @ js ''anthropic''
        @ [DQ] @ js '' or '' @ [DQ] @ js ''claude'' @ [DQ] @ js '': '' @ [DQ] @ nm @ [DQ],
      context' = js ''Reserved word in name''\<rparr>"

definition consecutive_hyphens :: "jsstring \<Rightarrow> diagnostic" where
  "consecutive_hyphens nm =
     \<lparr>lineNumber = 2,
      detail = js ''Skill name cannot contain consecutive hyphens: '' @ [DQ] @ nm @ [DQ],
      context' = js ''Consecutive hyphens''\<rparr>"

definition xml_tag_in_name :: "jsstring \<Rightarrow> diagnostic" where
  "xml_tag_in_name nm =
     \<lparr>lineNumber = 2,
      detail = js ''Skill name cannot contain XML tags: '' @ [DQ] @ nm @ [DQ],
      context' = js ''XML tag in name''\<rparr>"

definition name_directory_mismatch :: "jsstring \<Rightarrow> jsstring \<Rightarrow> diagnostic" where
  "name_directory_mismatch nm dirName =
     \<lparr>lineNumber = 2,
      detail = js ''Skill name '' @ [DQ] @ nm @ [DQ] @ js '' must match directory name ''
        @ [DQ] @ dirName @ [DQ],
      context' = js ''Name/directory mismatch''\<rparr>"

definition missing_description :: diagnostic where
  "missing_description =
     \<lparr>lineNumber = 2,
      detail = js ''Frontmatter must include '' @ [DQ] @ js ''description'' @ [DQ]
        @ js '' field'',
      context' = js ''Missing description''\<rparr>"

definition description_too_short :: "jsstring \<Rightarrow> diagnostic" where
  "description_too_short d =
     \<lparr>lineNumber = 2,
      detail = js ''Description should be at least 20 characters (current: ''
        @ show_nat (length d) @ js '')'',
      context' = js ''Description too short''\<rparr>"

definition description_too_long :: "jsstring \<Rightarrow> diagnostic" where
  "description_too_long d =
     \<lparr>lineNumber = 2,
      detail = js ''Description exceeds 1024 characters (current: '' @ show_nat (length d)
        @ js '')'',
      context' = js ''Description too long''\<rparr>"

definition xml_tag_in_description :: diagnostic where
  "xml_tag_in_description =
     \<lparr>lineNumber = 2,
      detail = js ''Description cannot contain XML tags'',
      context' = js ''XML tag in description''\<rparr>"

text \<open>The frontmatter lines without the \<open>---\<close> delimiters, joined.\<close>

definition frontmatter :: "jsstring list \<Rightarrow> jsstring" where
  "frontmatter fml = join_lines (filter (\<lambda>line. line \<noteq> js ''---'') fml)"

text \<open>The value of \<open>name\<close> in the \<open>else\<close> branch: group 1, trimmed, its quotes stripped.\<close>

definition name_value :: "jsstring \<Rightarrow> jsstring" where
  "name_value g = strip_quotes (trim g)"

text \<open>The six checks of a name that is present; each reports on its own.\<close>

definition validate_name :: "jsstring \<Rightarrow> jsstring \<Rightarrow> diagnostic list" where
  "validate_name nm dirName =
     (if \<not> is_kebab nm then [invalid_name_format nm] else [])
     @ (if length nm > 64 then [name_too_long nm] else [])
     @ (if has_reserved_word nm then [reserved_word_in_name nm] else [])
     @ (if has_double_hyphen nm then [consecutive_hyphens nm] else [])
     @ (if has_xml_tag nm then [xml_tag_in_name nm] else [])
     @ (if nm \<noteq> dirName then [name_directory_mismatch nm dirName] else [])"

text \<open>The block "Check for name field".\<close>

definition check_name :: "path_module \<Rightarrow> params \<Rightarrow> jsstring \<Rightarrow> diagnostic list" where
  "check_name path p fm =
     (case match_field (js ''name'') fm of
        None \<Rightarrow> [missing_name]
      | Some g \<Rightarrow> validate_name (name_value g) (basename path (dirname path (name p))))"

text \<open>
  The value of \<open>description\<close> in the \<open>else\<close> branch, from the two match results: the block
  form is looked at first, and only the single-line form has its quotes stripped.
\<close>

definition description_value :: "jsstring option \<Rightarrow> jsstring option \<Rightarrow> jsstring" where
  "description_value descMatch descMultilineMatch =
     (case descMultilineMatch of
        Some g \<Rightarrow> trim (replace_nl_ws g)
      | None \<Rightarrow> (case descMatch of Some g \<Rightarrow> strip_quotes (trim g) | None \<Rightarrow> []))"

definition validate_description :: "jsstring \<Rightarrow> diagnostic list" where
  "validate_description d =
     (if length d < 20 then [description_too_short d] else [])
     @ (if length d > 1024 then [description_too_long d] else [])
     @ (if has_xml_tag d then [xml_tag_in_description] else [])"

text \<open>The block "Check for description field".\<close>

definition check_description :: "jsstring \<Rightarrow> diagnostic list" where
  "check_description fm =
     (let descMatch = match_field (js ''description'') fm;
          descMultilineMatch = match_block fm
      in if descMatch = None \<and> descMultilineMatch = None then [missing_description]
         else validate_description (description_value descMatch descMultilineMatch))"

definition skillFrontmatter :: "path_module \<Rightarrow> params \<Rightarrow> diagnostic list" where
  "skillFrontmatter path p =
     (if \<not> endsWith (name p) (js ''SKILL.md'') then []
      else if length (front_matter_lines p) = 0 then [missing_frontmatter]
      else check_name path p (frontmatter (front_matter_lines p))
           @ check_description (frontmatter (front_matter_lines p)))"

text \<open>
  Neither rule passes a severity to \<open>onError\<close>. The two size recommendations, which the
  header of the length rule calls warnings, are told from the errors by their label: it
  ends with \<open>(warning)\<close>.
\<close>

definition is_warning :: "diagnostic \<Rightarrow> bool" where
  "is_warning d = endsWith (context' d) (js '' (warning)'')"

text \<open>The diagnostics of the length rule that report the line count.\<close>

definition is_line_count :: "diagnostic \<Rightarrow> bool" where
  "is_line_count d = prefix (js ''Line count: '') (detail d)"

section \<open>Example documents\<close>

text \<open>A document at \<open>path\<close> with the frontmatter lines \<open>fml\<close> and \<open>n\<close> body lines of
  two words each.\<close>

definition skill_doc :: "jsstring \<Rightarrow> jsstring list \<Rightarrow> nat \<Rightarrow> params" where
  "skill_doc path fml n =
     \<lparr>name = path, lines = replicate n (js ''Some text''), frontMatterLines = Some fml\<rparr>"

text \<open>A frontmatter block that passes every check in the directory \<open>my-skill\<close>.\<close>

definition good_frontmatter :: "jsstring list" where
  "good_frontmatter =
     [js ''---'',
      js ''name: my-skill'',
      js ''description: '' @ [DQ] @ js ''Analyze tables for cost optimization.'' @ [DQ],
      js ''license: Apache-2.0'',
      js ''---'']"

text \<open>A document that is no skill file: no frontmatter, 600 body lines.\<close>

definition readme_doc :: params where
  "readme_doc =
     \<lparr>name = js ''skills/my-skill/README.md'', lines = replicate 600 (js ''Some text''),
      frontMatterLines = None\<rparr>"

text \<open>Skill files without a frontmatter block: the array is missing, or empty.\<close>

definition no_frontmatter_doc :: "jsstring list option \<Rightarrow> params" where
  "no_frontmatter_doc fml =
     \<lparr>name = js ''skills/my-skill/SKILL.md'', lines = [js ''# Title''], frontMatterLines = fml\<rparr>"

text \<open>A frontmatter block whose \<open>name\<close> line holds \<open>v\<close> and whose description passes.\<close>

definition named_frontmatter :: "jsstring \<Rightarrow> jsstring list" where
  "named_frontmatter v =
     [js ''---'',
      js ''name: '' @ v,
      js ''description: '' @ [DQ] @ js ''Analyze tables for cost optimization.'' @ [DQ],
      js ''---'']"

text \<open>A frontmatter block with a folded description of two lines, followed by a key.\<close>

definition block_scalar_frontmatter :: "jsstring list" where
  "block_scalar_frontmatter =
     [js ''---'',
      js ''description: >'',
      js ''  line one'',
      js ''  line two'',
      js ''name: x'',
      js ''---'']"

text \<open>A folded description marker with nothing after it, and one followed by a key.\<close>

definition folded_last_frontmatter :: "jsstring list" where
  "folded_last_frontmatter =
     [js ''---'', js ''name: my-skill'', js ''description: >'', js ''---'']"

definition folded_then_key_frontmatter :: "jsstring list" where
  "folded_then_key_frontmatter =
     [js ''---'',
      js ''name: my-skill'',
      js ''description: >'',
      js ''allowed-tools: Bash(python3 scripts/*)'',
      js ''---'']"

text \<open>A frontmatter block in the directory \<open>my-skill\<close> whose description is folded over
  two lines; joined with one blank they read \<open>Analyze tables for cost optimization.\<close>\<close>

definition folded_description_frontmatter :: "jsstring list" where
  "folded_description_frontmatter =
     [js ''---'',
      js ''name: my-skill'',
      js ''description: >'',
      js ''  Analyze tables for'',
      js ''  cost optimization.'',
      js ''---'']"

section \<open>Evaluation\<close>

lemma js_Nil: "js [] = []"
  by (simp add: js_def)

lemma js_Cons: "js (c # cs) = of_char c # js cs"
  by (simp add: js_def)

lemmas char_classes =
  is_line_terminator_def is_space_def is_lower_def is_upper_def is_digit_def
  is_word_char_def is_quote_def is_key_char_def ci_eq_def DQ_def SQ_def LF_def

lemmas matchers =
  js_Nil js_Cons lit_def first_match_def field_at_def match_field_def block_at_def
  match_block_def
  lookahead_key_or_eol_def reserved_at_def has_reserved_word_def is_kebab_def
  strip_quotes_def trim_def name_value_def endsWith_def frontmatter_def

lemmas rule_defs =
  skillFrontmatter_def front_matter_lines_def check_name_def check_description_def
  validate_name_def validate_description_def description_value_def slash_path_def
  skill_doc_def Let_def

lemmas diagnostics =
  missing_frontmatter_def missing_name_def invalid_name_format_def name_too_long_def
  reserved_word_in_name_def consecutive_hyphens_def xml_tag_in_name_def
  name_directory_mismatch_def missing_description_def description_too_short_def
  description_too_long_def xml_tag_in_description_def

section \<open>Facts about the helpers\<close>

lemma endsWith_append_same: "endsWith (a @ t) t"
  by (simp add: endsWith_def)

lemma endsWith_last: "endsWith s t \<Longrightarrow> t \<noteq> [] \<Longrightarrow> last s = last t"
  by (metis endsWith_def append_take_drop_id last_appendR)

lemma is_line_count_line [simp]:
  "is_line_count (line_count_error n)" "is_line_count (line_count_warning n)"
  by (simp_all add: is_line_count_def line_count_error_def line_count_warning_def)

lemma is_line_count_word [simp]:
  "\<not> is_line_count (word_count_error n)" "\<not> is_line_count (word_count_warning n)"
  by (simp_all add: is_line_count_def word_count_error_def word_count_warning_def js_Nil js_Cons)

lemma filter_line_count_words [simp]: "filter is_line_count (check_word_count n) = []"
  by (simp add: check_word_count_def)

lemma is_warning_line_count_warning [simp]: "is_warning (line_count_warning n)"
proof -
  have "js '' lines (warning)'' = js '' lines'' @ js '' (warning)''"
    by (simp add: js_def)
  then have "context' (line_count_warning n) = (show_nat n @ js '' lines'') @ js '' (warning)''"
    by (simp add: line_count_warning_def)
  then show ?thesis
    unfolding is_warning_def by (simp only: endsWith_append_same)
qed

lemma not_warning_line_count_error [simp]: "\<not> is_warning (line_count_error n)"
proof
  assume "is_warning (line_count_error n)"
  then have "endsWith (show_nat n @ js '' lines'') (js '' (warning)'')"
    by (simp add: is_warning_def line_count_error_def)
  then have "last (show_nat n @ js '' lines'') = last (js '' (warning)'')"
    by (rule endsWith_last) (simp add: js_Cons)
  then show False
    by (simp add: js_Nil js_Cons)
qed

lemma skill_doc_marked: "endsWith (name (skill_doc (js ''skills/my-skill/SKILL.md'') fml n)) (js ''SKILL.md'')"
  by (simp add: skill_doc_def matchers)

lemma totalLines_skill_doc: "totalLines (skill_doc path fml n) = length fml + n"
  by (simp add: totalLines_def skill_doc_def front_matter_lines_def)

lemma skillFrontmatter_blocks:
  "endsWith (name p) (js ''SKILL.md'') \<Longrightarrow> frontMatterLines p = Some fml \<Longrightarrow> fml \<noteq> [] \<Longrightarrow>
   skillFrontmatter path p
     = check_name path p (frontmatter fml) @ check_description (frontmatter fml)"
  by (simp add: skillFrontmatter_def front_matter_lines_def)

lemma check_name_present:
  "match_field (js ''name'') fm = Some g \<Longrightarrow>
   check_name path p fm = validate_name (name_value g) (basename path (dirname path (name p)))"
  by (simp add: check_name_def)

lemma check_description_labels:
  "d \<in> set (check_description fm) \<Longrightarrow>
   context' d \<in> set [js ''Missing description'', js ''Description too short'',
                      js ''Description too long'', js ''XML tag in description'']"
  by (auto simp: check_description_def Let_def validate_description_def missing_description_def
      description_too_short_def description_too_long_def xml_tag_in_description_def
      split: if_splits)

lemma name_diagnostic_not_from_description:
  "context' d \<in> set [js ''Missing name'', js ''Invalid name format''] \<Longrightarrow>
   d \<notin> set (check_description fm)"
proof
  assume n: "context' d \<in> set [js ''Missing name'', js ''Invalid name format'']"
    and "d \<in> set (check_description fm)"
  then have "context' d \<in> set [js ''Missing description'', js ''Description too short'',
      js ''Description too long'', js ''XML tag in description'']"
    by (rule_tac check_description_labels)
  with n show False
    by (auto simp: js_Nil js_Cons)
qed

lemma name_field_of_named_frontmatter:
  "v = js ''claude-helper'' \<or> v = js ''ab--cd<x>'' \<or> v = [DQ, DQ] \<Longrightarrow>
   match_field (js ''name'') (frontmatter (named_frontmatter v)) = Some v"
  by (auto simp: named_frontmatter_def matchers char_classes)

lemma prefix_line_feed:
  assumes "prefix k (l @ LF # rest)" and "LF \<notin> set k"
  shows "prefix k l"
proof -
  from assms(1) have "prefix k l \<or> (\<exists>us. k = l @ us \<and> prefix us (LF # rest))"
    by (simp add: prefix_append)
  then show ?thesis
  proof
    assume "prefix k l"
    then show ?thesis .
  next
    assume "\<exists>us. k = l @ us \<and> prefix us (LF # rest)"
    then obtain us where us: "k = l @ us" "prefix us (LF # rest)"
      by blast
    show ?thesis
    proof (cases us)
      case Nil
      with us show ?thesis by simp
    next
      case (Cons u us')
      with us have "u = LF" by simp
      with Cons us assms(2) show ?thesis by simp
    qed
  qed
qed

lemma skip_rest_of_line:
  "\<forall>c\<in>set l. \<not> is_line_terminator c \<Longrightarrow>
   match_at_line_start f False (l @ LF # rest) = match_at_line_start f True rest"
  by (induction l) (simp_all add: is_line_terminator_def LF_def)

lemma skip_line:
  assumes "\<forall>c\<in>set l. \<not> is_line_terminator c" and "f (l @ LF # rest) = None"
  shows "match_at_line_start f True (l @ LF # rest) = match_at_line_start f True rest"
proof (cases l)
  case Nil
  with assms(2) show ?thesis
    by (simp add: is_line_terminator_def LF_def)
next
  case (Cons c cs)
  with assms have "match_at_line_start f True (l @ LF # rest)
      = match_at_line_start f False (cs @ LF # rest)"
    by simp
  also have "\<dots> = match_at_line_start f True rest"
    using assms(1) Cons by (simp add: skip_rest_of_line)
  finally show ?thesis .
qed

lemma skip_lines:
  assumes "\<And>l rest. l \<in> set pre \<Longrightarrow> f (l @ LF # rest) = None"
    and "\<forall>l\<in>set pre. \<forall>c\<in>set l. \<not> is_line_terminator c"
  shows "match_at_line_start f True (join_lines (pre @ [x])) = match_at_line_start f True x"
  using assms
proof (induction pre)
  case Nil
  then show ?case by simp
next
  case (Cons l pre)
  obtain y ys where y: "pre @ [x] = y # ys"
    by (cases "pre @ [x]") auto
  have "join_lines ((l # pre) @ [x]) = l @ LF # join_lines (pre @ [x])"
    by (simp add: y)
  moreover have "match_at_line_start f True (l @ LF # join_lines (pre @ [x]))
      = match_at_line_start f True (join_lines (pre @ [x]))"
    using Cons.prems by (intro skip_line) auto
  ultimately show ?case
    using Cons by simp
qed

lemma field_at_needs_key: "\<not> prefix (key @ [0x3A]) s \<Longrightarrow> field_at key s = None"
  by (simp add: field_at_def lit_def first_match_def)

lemma block_at_needs_key: "\<not> prefix (js ''description:'') s \<Longrightarrow> block_at s = None"
  by (simp add: block_at_def lit_def first_match_def)

lemma description_key: "js ''description'' @ [0x3A] = js ''description:''"
  by (simp add: js_def)

lemma LF_not_in_description_key: "LF \<notin> set (js ''description:'')"
  by (simp add: js_Nil js_Cons LF_def)

lemma last_line_only:
  assumes "\<forall>l\<in>set pre. \<not> prefix (js ''description:'') l \<and> (\<forall>c\<in>set l. \<not> is_line_terminator c)"
  shows "match_field (js ''description'') (join_lines (pre @ [x])) = match_field (js ''description'') x"
    and "match_block (join_lines (pre @ [x])) = match_block x"
proof -
  have n: "\<not> prefix (js ''description:'') (l @ LF # rest)" if "l \<in> set pre" for l rest
    using that assms prefix_line_feed [OF _ LF_not_in_description_key] by blast
  have t: "\<forall>l\<in>set pre. \<forall>c\<in>set l. \<not> is_line_terminator c"
    using assms by blast
  show "match_field (js ''description'') (join_lines (pre @ [x])) = match_field (js ''description'') x"
    unfolding match_field_def
    by (rule skip_lines) (simp_all add: field_at_needs_key description_key n t)
  show "match_block (join_lines (pre @ [x])) = match_block x"
    unfolding match_block_def
    by (rule skip_lines) (simp_all add: block_at_needs_key n t)
qed

lemma folded_marker_alone:
  "match_field (js ''description'') (js ''description: >'') = Some [0x3E]"
  "match_block (js ''description: >'') = None"
  by (simp_all add: matchers char_classes)


lemma join_lines_split:
  "\<exists>P R. join_lines (pre @ l # post) = P @ l @ R \<and> (P = [] \<or> last P = LF) \<and> eol R"
proof (induction pre)
  case Nil
  show ?case
  proof (cases post)
    case Nil
    then have "join_lines ([] @ l # post) = [] @ l @ [] \<and> eol []"
      by simp
    then show ?thesis by blast
  next
    case (Cons y ys)
    then have "join_lines ([] @ l # post) = [] @ l @ (LF # join_lines (y # ys))
        \<and> eol (LF # join_lines (y # ys))"
      by (simp add: is_line_terminator_def LF_def)
    then show ?thesis by blast
  qed
next
  case (Cons x pre)
  then obtain P R where pr: "join_lines (pre @ l # post) = P @ l @ R"
      "P = [] \<or> last P = LF" "eol R"
    by blast
  obtain y ys where y: "pre @ l # post = y # ys"
    by (cases "pre @ l # post") auto
  have "join_lines ((x # pre) @ l # post) = x @ LF # join_lines (pre @ l # post)"
    by (simp add: y)
  with pr have "join_lines ((x # pre) @ l # post) = (x @ LF # P) @ l @ R
      \<and> last (x @ LF # P) = LF \<and> eol R"
    by auto
  then show ?case by blast
qed

lemma match_found:
  "(if P = [] then bol else is_line_terminator (last P)) \<Longrightarrow> f X \<noteq> None \<Longrightarrow>
   match_at_line_start f bol (P @ X) \<noteq> None"
proof (induction P arbitrary: bol)
  case Nil
  then show ?case by (cases X) auto
next
  case (Cons c P)
  have "match_at_line_start f (is_line_terminator c) (P @ X) \<noteq> None"
    using Cons.prems by (intro Cons.IH) (auto split: if_splits)
  then show ?case
    by (auto split: option.splits)
qed

lemma field_at_folded_marker:
  "eol R \<Longrightarrow> field_at (js ''description'') (js ''description: >'' @ R) \<noteq> None"
  by (cases R) (simp_all add: matchers char_classes split: list.splits)

lemma folded_marker_line_found:
  assumes "js ''description: >'' \<in> set ls"
  shows "match_field (js ''description'') (join_lines ls) \<noteq> None"
proof -
  from assms obtain pre post where "ls = pre @ js ''description: >'' # post"
    by (meson split_list)
  then obtain P R where pr: "join_lines ls = P @ js ''description: >'' @ R"
      "P = [] \<or> last P = LF" "eol R"
    using join_lines_split by blast
  have "match_at_line_start (field_at (js ''description'')) True (P @ js ''description: >'' @ R) \<noteq> None"
    using pr(2,3) by (intro match_found field_at_folded_marker) (auto simp: is_line_terminator_def LF_def)
  then show ?thesis
    by (simp add: match_field_def pr(1))
qed

lemma check_name_labels:
  "d \<in> set (check_name path p fm) \<Longrightarrow>
   context' d \<in> set [js ''Missing name'', js ''Invalid name format'', js ''Name too long'',
                      js ''Reserved word in name'', js ''Consecutive hyphens'',
                      js ''XML tag in name'', js ''Name/directory mismatch'']"
  by (auto simp: check_name_def validate_name_def diagnostics split: option.splits if_splits)

lemma validate_description_labels:
  "d \<in> set (validate_description x) \<Longrightarrow>
   context' d \<in> set [js ''Description too short'',
                      js ''Description too long'', js ''XML tag in description'']"
  by (auto simp: validate_description_def diagnostics split: if_splits)

lemma missing_description_not_from_name:
  "missing_description \<notin> set (check_name path p fm)"
proof
  assume "missing_description \<in> set (check_name path p fm)"
  then have "context' missing_description \<in> set [js ''Missing name'', js ''Invalid name format'', js ''Name too long'',
                      js ''Reserved word in name'', js ''Consecutive hyphens'',
                      js ''XML tag in name'', js ''Name/directory mismatch'']"
    by (rule check_name_labels)
  then show False
    by (simp add: missing_description_def js_Nil js_Cons)
qed

lemma description_found_not_missing:
  assumes "match_field (js ''description'') fm \<noteq> None"
  shows "missing_description \<notin> set (check_description fm)"
proof
  assume "missing_description \<in> set (check_description fm)"
  with assms have "missing_description \<in> set (validate_description
      (description_value (match_field (js ''description'') fm) (match_block fm)))"
    by (auto simp: check_description_def Let_def)
  then have "context' missing_description \<in> set [js ''Description too short'',
                      js ''Description too long'', js ''XML tag in description'']"
    by (rule validate_description_labels)
  then show False
    by (simp add: missing_description_def js_Nil js_Cons)
qed

lemma folded_marker_value:
  "validate_description (description_value (Some [0x3E]) None) = [description_too_short [0x3E]]"
  "detail (description_too_short [0x3E]) = js ''Description should be at least 20 characters (current: 1)''"
  by (simp_all add: validate_description_def description_value_def matchers char_classes
        description_too_short_def show_nat.simps)

lemma strip_quotes_removes:
  "\<exists>a b. s = a @ strip_quotes s @ b \<and> length a \<le> 1 \<and> length b \<le> 1
     \<and> list_all is_quote (a @ b)"
proof -
  define s1 where "s1 = (case s of [] \<Rightarrow> [] | c # cs \<Rightarrow> if is_quote c then cs else c # cs)"
  have a: "\<exists>a. s = a @ s1 \<and> length a \<le> 1 \<and> list_all is_quote a"
  proof (cases s)
    case Nil
    then show ?thesis by (simp add: s1_def)
  next
    case (Cons c cs)
    show ?thesis
    proof (cases "is_quote c")
      case True
      with Cons have "s = [c] @ s1 \<and> length [c] \<le> 1 \<and> list_all is_quote [c]"
        by (simp add: s1_def)
      then show ?thesis by blast
    next
      case False
      with Cons have "s = [] @ s1 \<and> length ([]::nat list) \<le> 1 \<and> list_all is_quote []"
        by (simp add: s1_def)
      then show ?thesis by blast
    qed
  qed
  have b: "\<exists>b. s1 = strip_quotes s @ b \<and> length b \<le> 1 \<and> list_all is_quote b"
  proof (cases "s1 \<noteq> [] \<and> is_quote (last s1)")
    case True
    then have "strip_quotes s = butlast s1"
      by (simp add: strip_quotes_def s1_def)
    with True have "s1 = strip_quotes s @ [last s1] \<and> length [last s1] \<le> 1
        \<and> list_all is_quote [last s1]"
      by simp
    then show ?thesis by blast
  next
    case False
    then have "strip_quotes s = s1"
      by (auto simp: strip_quotes_def s1_def)
    then have "s1 = strip_quotes s @ [] \<and> length ([]::nat list) \<le> 1 \<and> list_all is_quote []"
      by simp
    then show ?thesis by blast
  qed
  from a obtain a' where a': "s = a' @ s1" "length a' \<le> 1" "list_all is_quote a'"
    by blast
  from b obtain b' where b': "s1 = strip_quotes s @ b'" "length b' \<le> 1" "list_all is_quote b'"
    by blast
  from a' b' have "s = a' @ strip_quotes s @ b' \<and> length a' \<le> 1 \<and> length b' \<le> 1
      \<and> list_all is_quote (a' @ b')"
    by simp
  then show ?thesis by blast
qed

lemma strip_quotes_pair:
  "is_quote q1 \<Longrightarrow> is_quote q2 \<Longrightarrow> strip_quotes (q1 # x @ [q2]) = x"
  by (simp add: strip_quotes_def)

lemma first_is_append: "first_is P xs \<Longrightarrow> first_is P ys \<Longrightarrow> first_is P (xs @ ys)"
  by (cases xs) (simp_all add: first_is_def)

lemma first_is_concat:
  "(\<And>x. x \<in> set xs \<Longrightarrow> first_is P (f x)) \<Longrightarrow> first_is P (concat (map f xs))"
  by (induction xs) (simp_all add: first_is_append, simp add: first_is_def)

lemma first_match_is: "first_match ways = Some g \<Longrightarrow> first_is P ways \<Longrightarrow> P g"
  by (auto simp: first_match_def first_is_def split: list.splits)

lemma group_cons:
  "[g. (g, r) \<leftarrow> map (\<lambda>(g, r). (c # g, r)) xs, P r] = map ((#) c) [g. (g, r) \<leftarrow> xs, P r]"
  by (induction xs) auto

lemma lazy_group_first:
  "\<exists>rest. [g. (g, r) \<leftarrow> any_star_lazy s, lookahead_key_or_eol r]
     = takeWhile (\<lambda>c. \<not> is_line_terminator c) s # rest"
proof (induction s)
  case Nil
  then show ?case
    by (simp add: lookahead_key_or_eol_def)
next
  case (Cons c s)
  then obtain rest where r: "[g. (g, r) \<leftarrow> any_star_lazy s, lookahead_key_or_eol r]
      = takeWhile (\<lambda>c. \<not> is_line_terminator c) s # rest"
    by blast
  show ?case
  proof (cases "is_line_terminator c")
    case True
    then show ?thesis
      by (simp add: lookahead_key_or_eol_def)
  next
    case False
    then have "\<not> lookahead_key_or_eol (c # s)"
      by (auto simp: lookahead_key_or_eol_def lit_def is_line_terminator_def LF_def)
    then have "[g. (g, r) \<leftarrow> any_star_lazy (c # s), lookahead_key_or_eol r]
        = map ((#) c) [g. (g, r) \<leftarrow> any_star_lazy s, lookahead_key_or_eol r]"
      by (simp del: map_map add: group_cons)
    also have "\<dots> = takeWhile (\<lambda>c. \<not> is_line_terminator c) (c # s) # map ((#) c) rest"
      using False by (simp add: r)
    finally show ?thesis
      by blast
  qed
qed

lemma lazy_group_single_line:
  "first_is (list_all (\<lambda>c. \<not> is_line_terminator c))
     [g. (g, r) \<leftarrow> any_star_lazy s, lookahead_key_or_eol r]"
proof -
  obtain rest where "[g. (g, r) \<leftarrow> any_star_lazy s, lookahead_key_or_eol r]
      = takeWhile (\<lambda>c. \<not> is_line_terminator c) s # rest"
    using lazy_group_first by blast
  moreover have "list_all (\<lambda>c. \<not> is_line_terminator c)
      (takeWhile (\<lambda>c. \<not> is_line_terminator c) s)"
    by (induction s) auto
  ultimately show ?thesis
    by (simp add: first_is_def)
qed


lemma match_at_line_start_from:
  "match_at_line_start f bol s = Some g \<Longrightarrow> \<exists>t. f t = Some g"
proof (induction s arbitrary: bol)
  case Nil
  then show ?case
    by (cases bol) auto
next
  case (Cons c s)
  show ?case
  proof (cases "bol \<and> f (c # s) \<noteq> None")
    case True
    with Cons.prems show ?thesis by auto
  next
    case False
    with Cons.prems have "match_at_line_start f (is_line_terminator c) s = Some g"
      by (auto split: option.splits if_splits)
    then show ?thesis
      by (rule Cons.IH)
  qed
qed

lemma replace_nl_ws_single_line:
  "list_all (\<lambda>c. \<not> is_line_terminator c) g \<Longrightarrow> replace_nl_ws g = g"
  by (induction g) (auto simp: is_line_terminator_def LF_def)

lemma block_at_single_line:
  assumes "block_at s = Some g"
  shows "list_all (\<lambda>c. \<not> is_line_terminator c) g"
proof -
  have "first_is (list_all (\<lambda>c. \<not> is_line_terminator c))
       [g. r1 \<leftarrow> lit (js ''description:'') s, r2 \<leftarrow> ws_star r1, r3 \<leftarrow> lit [0x3E] r2,
           r4 \<leftarrow> ws_star r3, r5 \<leftarrow> lit [LF] r4, (g, r6) \<leftarrow> any_star_lazy r5,
           lookahead_key_or_eol r6]"
    by (intro first_is_concat lazy_group_single_line)
  with assms show ?thesis
    unfolding block_at_def by (rule first_match_is)
qed


section \<open>The applicability gate\<close>

text \<open>
  C5. A document whose name does not end with \<open>SKILL.md\<close> gets no diagnostic from the
  length rule and none from the frontmatter rule, whatever its lines and its frontmatter
  are. (The limits are constants of the length rule; nothing is consulted before the
  gate.)
\<close>

theorem C5_unmarked_document_no_diagnostics:
  "\<not> endsWith (name p) (js ''SKILL.md'') \<Longrightarrow> skillLength p = [] \<and> skillFrontmatter path p = []"
  by (simp add: skillLength_def skillFrontmatter_def)

theorem C5_witness:
  "\<not> endsWith (name readme_doc) (js ''SKILL.md'')
   \<and> skillLength readme_doc = [] \<and> skillFrontmatter slash_path readme_doc = []"
proof -
  have h: "\<not> endsWith (name readme_doc) (js ''SKILL.md'')"
    by (simp add: readme_doc_def matchers)
  show ?thesis
    using h C5_unmarked_document_no_diagnostics [OF h, of slash_path] by simp
qed

section \<open>The length rule\<close>

text \<open>
  C3. For a checked document with \<open>WARNING_LINES < totalLines \<le> MAX_LINES\<close> the length
  rule reports the line count exactly once, and that diagnostic is the warning (its
  label ends with \<open>(warning)\<close>), not the error.
\<close>

theorem C3_soft_range_one_warning:
  assumes "endsWith (name p) (js ''SKILL.md'')"
    and "WARNING_LINES < totalLines p" and "totalLines p \<le> MAX_LINES"
  shows "filter is_line_count (skillLength p) = [line_count_warning (totalLines p)]
         \<and> is_warning (line_count_warning (totalLines p))"
  using assms by (simp add: skillLength_def check_line_count_def)

theorem C3_witness:
  "endsWith (name (skill_doc (js ''skills/my-skill/SKILL.md'') good_frontmatter 296)) (js ''SKILL.md'')
   \<and> WARNING_LINES < totalLines (skill_doc (js ''skills/my-skill/SKILL.md'') good_frontmatter 296)
   \<and> totalLines (skill_doc (js ''skills/my-skill/SKILL.md'') good_frontmatter 296) \<le> MAX_LINES
   \<and> filter is_line_count (skillLength (skill_doc (js ''skills/my-skill/SKILL.md'') good_frontmatter 296))
       = [line_count_warning 301]
   \<and> is_warning (line_count_warning 301)"
proof -
  let ?d = "skill_doc (js ''skills/my-skill/SKILL.md'') good_frontmatter 296"
  have t: "totalLines ?d = 301"
    by (simp add: totalLines_skill_doc good_frontmatter_def)
  have h1: "endsWith (name ?d) (js ''SKILL.md'')"
    by (rule skill_doc_marked)
  have h2: "WARNING_LINES < totalLines ?d"
    by (simp add: t WARNING_LINES_def)
  have h3: "totalLines ?d \<le> MAX_LINES"
    by (simp add: t MAX_LINES_def)
  show ?thesis
    using C3_soft_range_one_warning [OF h1 h2 h3] h1 h2 h3 by (simp add: t)
qed

text \<open>
  C4. The line-count error starts strictly above \<open>MAX_LINES\<close>. A checked document with
  \<open>totalLines = MAX_LINES\<close> (frontmatter lines plus body lines) gets no line-count error:
  its only line-count diagnostic is the warning. With \<open>totalLines = MAX_LINES + 1\<close> it
  gets exactly one line-count diagnostic, the error, whose message names the hard limit
  \<open>MAX_LINES\<close>.
\<close>

theorem C4_hard_limit_boundary:
  assumes "endsWith (name p) (js ''SKILL.md'')"
  shows "(totalLines p = MAX_LINES \<longrightarrow>
            filter is_line_count (skillLength p) = [line_count_warning MAX_LINES]
            \<and> filter (\<lambda>d. \<not> is_warning d) (filter is_line_count (skillLength p)) = [])
       \<and> (totalLines p = MAX_LINES + 1 \<longrightarrow>
            filter is_line_count (skillLength p) = [line_count_error (MAX_LINES + 1)]
            \<and> \<not> is_warning (line_count_error (MAX_LINES + 1))
            \<and> detail (line_count_error (MAX_LINES + 1)) =
                js ''Line count: '' @ show_nat (MAX_LINES + 1) @ js '' (max: ''
                @ show_nat MAX_LINES
                @ js ''). Move detailed content to references/ subdirectory.'')"
proof (intro conjI impI)
  assume "totalLines p = MAX_LINES"
  then show "filter is_line_count (skillLength p) = [line_count_warning MAX_LINES]"
    using assms by (simp add: skillLength_def check_line_count_def MAX_LINES_def WARNING_LINES_def)
  then show "filter (\<lambda>d. \<not> is_warning d) (filter is_line_count (skillLength p)) = []"
    by simp
next
  assume "totalLines p = MAX_LINES + 1"
  then show "filter is_line_count (skillLength p) = [line_count_error (MAX_LINES + 1)]"
    using assms by (simp add: skillLength_def check_line_count_def)
next
  show "\<not> is_warning (line_count_error (MAX_LINES + 1))"
    by simp
next
  show "detail (line_count_error (MAX_LINES + 1)) =
          js ''Line count: '' @ show_nat (MAX_LINES + 1) @ js '' (max: '' @ show_nat MAX_LINES
          @ js ''). Move detailed content to references/ subdirectory.''"
    by (simp add: line_count_error_def)
qed

theorem C4_witness:
  "endsWith (name (skill_doc (js ''skills/my-skill/SKILL.md'') good_frontmatter 495)) (js ''SKILL.md'')
   \<and> totalLines (skill_doc (js ''skills/my-skill/SKILL.md'') good_frontmatter 495) = MAX_LINES
   \<and> filter (\<lambda>d. \<not> is_warning d)
        (filter is_line_count
          (skillLength (skill_doc (js ''skills/my-skill/SKILL.md'') good_frontmatter 495))) = []
   \<and> totalLines (skill_doc (js ''skills/my-skill/SKILL.md'') good_frontmatter 496) = MAX_LINES + 1
   \<and> filter is_line_count
        (skillLength (skill_doc (js ''skills/my-skill/SKILL.md'') good_frontmatter 496))
       = [line_count_error 501]
   \<and> detail (line_count_error 501) =
       js ''Line count: 501 (max: 500). Move detailed content to references/ subdirectory.''"
proof -
  let ?d = "skill_doc (js ''skills/my-skill/SKILL.md'') good_frontmatter 495"
  let ?e = "skill_doc (js ''skills/my-skill/SKILL.md'') good_frontmatter 496"
  have td: "totalLines ?d = MAX_LINES"
    by (simp add: totalLines_skill_doc good_frontmatter_def MAX_LINES_def)
  have te: "totalLines ?e = MAX_LINES + 1"
    by (simp add: totalLines_skill_doc good_frontmatter_def MAX_LINES_def)
  have m: "Suc MAX_LINES = 501"
    by (simp add: MAX_LINES_def)
  have msg: "detail (line_count_error 501) =
      js ''Line count: 501 (max: 500). Move detailed content to references/ subdirectory.''"
    by (simp add: line_count_error_def MAX_LINES_def show_nat.simps js_Nil js_Cons)
  show ?thesis
    using C4_hard_limit_boundary [OF skill_doc_marked, of good_frontmatter 495]
      C4_hard_limit_boundary [OF skill_doc_marked, of good_frontmatter 496]
      td te skill_doc_marked [of good_frontmatter 495] msg m
    by simp
qed

section \<open>The frontmatter rule\<close>

text \<open>
  C6. For a checked document without a frontmatter block (the array of frontmatter lines
  is missing or empty) the frontmatter rule reports the missing frontmatter and nothing
  else: no check of the name or of the description runs.
\<close>

theorem C6_missing_frontmatter_only:
  assumes "endsWith (name p) (js ''SKILL.md'')"
    and "frontMatterLines p = None \<or> frontMatterLines p = Some []"
  shows "skillFrontmatter path p = [missing_frontmatter]"
  using assms by (auto simp: skillFrontmatter_def front_matter_lines_def)

theorem C6_witness:
  "endsWith (name (no_frontmatter_doc None)) (js ''SKILL.md'')
   \<and> endsWith (name (no_frontmatter_doc (Some []))) (js ''SKILL.md'')
   \<and> skillFrontmatter slash_path (no_frontmatter_doc None) = [missing_frontmatter]
   \<and> skillFrontmatter slash_path (no_frontmatter_doc (Some [])) = [missing_frontmatter]"
proof -
  have h: "endsWith (name (no_frontmatter_doc fml)) (js ''SKILL.md'')" for fml
    by (simp add: no_frontmatter_doc_def matchers)
  have n: "frontMatterLines (no_frontmatter_doc None) = None
           \<or> frontMatterLines (no_frontmatter_doc None) = Some []"
    by (simp add: no_frontmatter_doc_def)
  have e: "frontMatterLines (no_frontmatter_doc (Some [])) = None
           \<or> frontMatterLines (no_frontmatter_doc (Some [])) = Some []"
    by (simp add: no_frontmatter_doc_def)
  show ?thesis
    using C6_missing_frontmatter_only [OF h n, of slash_path]
      C6_missing_frontmatter_only [OF h e, of slash_path] h
    by simp
qed

text \<open>
  C7. For a checked document whose name is \<open>claude-helper\<close> the frontmatter rule reports
  the reserved word, although the name passes the kebab-case check: of the six checks of
  the name only the reserved-word check fires, and the directory check when the
  directory is named otherwise. The match ignores the case of the letters and wants the
  whole word: \<open>My-CLAUDE\<close> has the reserved word, \<open>claudes-helper\<close> has not.
\<close>

theorem C7_reserved_word_claude_helper:
  assumes "endsWith (name p) (js ''SKILL.md'')"
    and "frontMatterLines p = Some fml" and "fml \<noteq> []"
    and "match_field (js ''name'') (frontmatter fml) = Some g"
    and "name_value g = js ''claude-helper''"
  shows "reserved_word_in_name (js ''claude-helper'') \<in> set (skillFrontmatter path p)
     \<and> is_kebab (js ''claude-helper'')
     \<and> invalid_name_format (js ''claude-helper'') \<notin> set (skillFrontmatter path p)
     \<and> check_name path p (frontmatter fml) =
         reserved_word_in_name (js ''claude-helper'')
         # (if js ''claude-helper'' \<noteq> basename path (dirname path (name p))
            then [name_directory_mismatch (js ''claude-helper'')
                    (basename path (dirname path (name p)))]
            else [])
     \<and> has_reserved_word (js ''My-CLAUDE'') \<and> \<not> has_reserved_word (js ''claudes-helper'')"
proof -
  let ?dn = "basename path (dirname path (name p))"
  have v: "validate_name (js ''claude-helper'') ?dn =
      reserved_word_in_name (js ''claude-helper'')
      # (if js ''claude-helper'' \<noteq> ?dn
         then [name_directory_mismatch (js ''claude-helper'') ?dn] else [])"
    by (simp add: validate_name_def matchers char_classes)
  have c: "check_name path p (frontmatter fml) = validate_name (js ''claude-helper'') ?dn"
    using assms(4,5) by (simp add: check_name_present)
  have s: "skillFrontmatter path p
      = check_name path p (frontmatter fml) @ check_description (frontmatter fml)"
    using assms(1-3) by (rule skillFrontmatter_blocks)
  have k: "is_kebab (js ''claude-helper'')"
    by (simp add: matchers char_classes)
  have nd: "invalid_name_format (js ''claude-helper'') \<notin> set (check_description (frontmatter fml))"
    by (rule name_diagnostic_not_from_description) (simp add: invalid_name_format_def)
  have nn: "invalid_name_format (js ''claude-helper'') \<notin> set (check_name path p (frontmatter fml))"
    unfolding c v by (auto simp: diagnostics js_Nil js_Cons)
  have r: "has_reserved_word (js ''My-CLAUDE'') \<and> \<not> has_reserved_word (js ''claudes-helper'')"
    by (simp add: matchers char_classes)
  have m: "reserved_word_in_name (js ''claude-helper'') \<in> set (skillFrontmatter path p)"
    unfolding s c v by simp
  have n: "invalid_name_format (js ''claude-helper'') \<notin> set (skillFrontmatter path p)"
    unfolding s using nd nn by simp
  have cn: "check_name path p (frontmatter fml) =
      reserved_word_in_name (js ''claude-helper'')
      # (if js ''claude-helper'' \<noteq> ?dn
         then [name_directory_mismatch (js ''claude-helper'') ?dn] else [])"
    unfolding c v ..
  from m k n cn r show ?thesis
    by (intro conjI) simp_all
qed

theorem C7_witness:
  "endsWith (name (skill_doc (js ''skills/my-skill/SKILL.md'')
       (named_frontmatter (js ''claude-helper'')) 3)) (js ''SKILL.md'')
   \<and> match_field (js ''name'') (frontmatter (named_frontmatter (js ''claude-helper'')))
       = Some (js ''claude-helper'')
   \<and> name_value (js ''claude-helper'') = js ''claude-helper''
   \<and> reserved_word_in_name (js ''claude-helper'')
       \<in> set (skillFrontmatter slash_path
                (skill_doc (js ''skills/my-skill/SKILL.md'')
                   (named_frontmatter (js ''claude-helper'')) 3))"
proof -
  let ?fml = "named_frontmatter (js ''claude-helper'')"
  let ?d = "skill_doc (js ''skills/my-skill/SKILL.md'') ?fml 3"
  have h1: "endsWith (name ?d) (js ''SKILL.md'')"
    by (rule skill_doc_marked)
  have h2: "frontMatterLines ?d = Some ?fml"
    by (simp add: skill_doc_def)
  have h3: "?fml \<noteq> []"
    by (simp add: named_frontmatter_def)
  have h4: "match_field (js ''name'') (frontmatter ?fml) = Some (js ''claude-helper'')"
    by (simp add: name_field_of_named_frontmatter)
  have h5: "name_value (js ''claude-helper'') = js ''claude-helper''"
    by (simp add: matchers char_classes)
  show ?thesis
    using C7_reserved_word_claude_helper [OF h1 h2 h3 h4 h5, of slash_path] h1 h4 h5
    by simp
qed

text \<open>
  C2, as stated, fails: the name \<open>ab--cd<x>\<close> in the directory \<open>my-skill\<close> gets four
  diagnostics about the name, not three, since the directory check fires as well.
\<close>

theorem C2_counterexample:
  "match_field (js ''name'') (frontmatter (named_frontmatter (js ''ab--cd<x>'')))
     = Some (js ''ab--cd<x>'')
   \<and> skillFrontmatter slash_path
        (skill_doc (js ''skills/my-skill/SKILL.md'') (named_frontmatter (js ''ab--cd<x>'')) 3)
       = [invalid_name_format (js ''ab--cd<x>''), consecutive_hyphens (js ''ab--cd<x>''),
          xml_tag_in_name (js ''ab--cd<x>''),
          name_directory_mismatch (js ''ab--cd<x>'') (js ''my-skill'')]
   \<and> length (skillFrontmatter slash_path
        (skill_doc (js ''skills/my-skill/SKILL.md'') (named_frontmatter (js ''ab--cd<x>'')) 3))
       = 4"
proof -
  have "skillFrontmatter slash_path
        (skill_doc (js ''skills/my-skill/SKILL.md'') (named_frontmatter (js ''ab--cd<x>'')) 3)
       = [invalid_name_format (js ''ab--cd<x>''), consecutive_hyphens (js ''ab--cd<x>''),
          xml_tag_in_name (js ''ab--cd<x>''),
          name_directory_mismatch (js ''ab--cd<x>'') (js ''my-skill'')]"
    by (simp add: named_frontmatter_def rule_defs matchers char_classes)
  then show ?thesis
    by (simp add: name_field_of_named_frontmatter)
qed

text \<open>
  C2, amended. For a checked document whose name is \<open>ab--cd<x>\<close> the kebab-case check,
  the consecutive-hyphen check and the XML-tag check each report, the length check and
  the reserved-word check do not, and the directory check reports as well unless the
  containing directory is itself named \<open>ab--cd<x>\<close>: four distinct diagnostics about
  the name, and three only in a directory of that name.
\<close>

theorem C2_name_checks_independent:
  assumes "endsWith (name p) (js ''SKILL.md'')"
    and "frontMatterLines p = Some fml" and "fml \<noteq> []"
    and "match_field (js ''name'') (frontmatter fml) = Some g"
    and "name_value g = js ''ab--cd<x>''"
  shows "check_name path p (frontmatter fml) =
           [invalid_name_format (js ''ab--cd<x>''), consecutive_hyphens (js ''ab--cd<x>''),
            xml_tag_in_name (js ''ab--cd<x>'')]
           @ (if js ''ab--cd<x>'' \<noteq> basename path (dirname path (name p))
              then [name_directory_mismatch (js ''ab--cd<x>'')
                      (basename path (dirname path (name p)))]
              else [])
     \<and> distinct (check_name path p (frontmatter fml))
     \<and> skillFrontmatter path p
         = check_name path p (frontmatter fml) @ check_description (frontmatter fml)"
proof -
  let ?dn = "basename path (dirname path (name p))"
  have "distinct [invalid_name_format (js ''ab--cd<x>''), consecutive_hyphens (js ''ab--cd<x>''),
       xml_tag_in_name (js ''ab--cd<x>''), name_directory_mismatch (js ''ab--cd<x>'') ?dn]"
    by (simp add: diagnostics js_Nil js_Cons)
  moreover have "validate_name (js ''ab--cd<x>'') ?dn =
      [invalid_name_format (js ''ab--cd<x>''), consecutive_hyphens (js ''ab--cd<x>''),
       xml_tag_in_name (js ''ab--cd<x>'')]
      @ (if js ''ab--cd<x>'' \<noteq> ?dn
         then [name_directory_mismatch (js ''ab--cd<x>'') ?dn] else [])"
    by (simp add: validate_name_def matchers char_classes)
  moreover have "check_name path p (frontmatter fml) = validate_name (js ''ab--cd<x>'') ?dn"
    using assms(4,5) by (simp add: check_name_present)
  moreover have "skillFrontmatter path p
      = check_name path p (frontmatter fml) @ check_description (frontmatter fml)"
    using assms(1-3) by (rule skillFrontmatter_blocks)
  ultimately show ?thesis
    by simp
qed

theorem C2_witness:
  "endsWith (name (skill_doc (js ''skills/ab--cd<x>/SKILL.md'')
       (named_frontmatter (js ''ab--cd<x>'')) 3)) (js ''SKILL.md'')
   \<and> match_field (js ''name'') (frontmatter (named_frontmatter (js ''ab--cd<x>'')))
       = Some (js ''ab--cd<x>'')
   \<and> name_value (js ''ab--cd<x>'') = js ''ab--cd<x>''
   \<and> check_name slash_path
        (skill_doc (js ''skills/ab--cd<x>/SKILL.md'') (named_frontmatter (js ''ab--cd<x>'')) 3)
        (frontmatter (named_frontmatter (js ''ab--cd<x>'')))
       = [invalid_name_format (js ''ab--cd<x>''), consecutive_hyphens (js ''ab--cd<x>''),
          xml_tag_in_name (js ''ab--cd<x>'')]"
proof -
  let ?fml = "named_frontmatter (js ''ab--cd<x>'')"
  let ?d = "skill_doc (js ''skills/ab--cd<x>/SKILL.md'') ?fml 3"
  have h1: "endsWith (name ?d) (js ''SKILL.md'')"
    by (simp add: skill_doc_def matchers)
  have h2: "frontMatterLines ?d = Some ?fml"
    by (simp add: skill_doc_def)
  have h3: "?fml \<noteq> []"
    by (simp add: named_frontmatter_def)
  have h4: "match_field (js ''name'') (frontmatter ?fml) = Some (js ''ab--cd<x>'')"
    by (simp add: name_field_of_named_frontmatter)
  have h5: "name_value (js ''ab--cd<x>'') = js ''ab--cd<x>''"
    by (simp add: matchers char_classes)
  have dn: "basename slash_path (dirname slash_path (name ?d)) = js ''ab--cd<x>''"
    by (simp add: skill_doc_def slash_path_def js_Nil js_Cons)
  show ?thesis
    using C2_name_checks_independent [OF h1 h2 h3 h4 h5, of slash_path] h1 h4 h5
    by (simp add: dn)
qed

text \<open>
  The group of the block pattern never holds a line terminator: it is one line at most,
  and the replacement that would join its lines finds no line feed in it.
\<close>

lemma block_group_single_line:
  assumes "match_block s = Some g"
  shows "list_all (\<lambda>c. \<not> is_line_terminator c) g \<and> replace_nl_ws g = g"
proof -
  from assms have "match_at_line_start block_at True s = Some g"
    by (simp only: match_block_def)
  then have "\<exists>t. block_at t = Some g"
    by (rule match_at_line_start_from)
  then obtain t where "block_at t = Some g" ..
  then have "list_all (\<lambda>c. \<not> is_line_terminator c) g"
    by (rule block_at_single_line)
  then show ?thesis
    by (simp add: replace_nl_ws_single_line)
qed

text \<open>
  C8, evaluated on the frontmatter of the claim: a folded description of the lines
  \<open>line one\<close> and \<open>line two\<close>, followed by \<open>name: x\<close>. Under the \<open>m\<close> flag the \<open>$\<close> of the
  lookahead holds before every line feed, so the lazy group stops at the end of the
  first line: the description is \<open>line one\<close>, and the rule reports it as too short.
\<close>

theorem C8_block_scalar_first_line_only:
  "match_block (frontmatter block_scalar_frontmatter) = Some (js ''  line one'')
   \<and> description_value (match_field (js ''description'') (frontmatter block_scalar_frontmatter))
        (match_block (frontmatter block_scalar_frontmatter)) = js ''line one''
   \<and> js ''line one'' \<noteq> js ''line one line two''
   \<and> skillFrontmatter slash_path (skill_doc (js ''skills/x/SKILL.md'') block_scalar_frontmatter 3)
       = [description_too_short (js ''line one'')]"
  by (simp add: block_scalar_frontmatter_def rule_defs matchers char_classes)

text \<open>
  C9, evaluated on a frontmatter where a key line follows \<open>description: >\<close> and the
  description has no continuation line. The line feed of the block pattern is consumed
  before the lookahead for a key is tried, so the pattern matches and the lazy group
  takes the key line itself as the description. The single-line value \<open>>\<close> is not used
  and no "too short" is reported: the key line is long enough, and the rule reports
  nothing at all for a document whose description is empty.
\<close>

theorem C9_key_line_taken_as_description:
  "js ''description: >'' \<in> set folded_then_key_frontmatter
   \<and> match_block (frontmatter folded_then_key_frontmatter)
       = Some (js ''allowed-tools: Bash(python3 scripts/*)'')
   \<and> description_value
        (match_field (js ''description'') (frontmatter folded_then_key_frontmatter))
        (match_block (frontmatter folded_then_key_frontmatter))
       = js ''allowed-tools: Bash(python3 scripts/*)''
   \<and> skillFrontmatter slash_path
        (skill_doc (js ''skills/my-skill/SKILL.md'') folded_then_key_frontmatter 3) = []
   \<and> description_too_short [0x3E]
       \<notin> set (skillFrontmatter slash_path
                (skill_doc (js ''skills/my-skill/SKILL.md'') folded_then_key_frontmatter 3))"
  by (simp add: folded_then_key_frontmatter_def rule_defs matchers char_classes)

text \<open>
  The sibling case, where nothing follows the marker. For a checked document whose
  frontmatter has a line \<open>description: >\<close> the rule never reports a missing description.
  When that line is the last line of the block (the delimiters apart) and no line before
  it starts with \<open>description:\<close>, the block pattern does not match, the single-line
  pattern gives the value \<open>>\<close>, and the description checks report exactly "too short",
  with the length 1.
\<close>

lemma folded_marker_last_line:
  assumes "endsWith (name p) (js ''SKILL.md'')"
    and "frontMatterLines p = Some fml"
    and "js ''description: >'' \<in> set fml"
  shows "missing_description \<notin> set (skillFrontmatter path p)
     \<and> (filter (\<lambda>line. line \<noteq> js ''---'') fml = pre @ [js ''description: >'']
          \<and> (\<forall>l\<in>set pre. \<not> prefix (js ''description:'') l
                \<and> (\<forall>c\<in>set l. \<not> is_line_terminator c)) \<longrightarrow>
        check_description (frontmatter fml) = [description_too_short [0x3E]]
        \<and> detail (description_too_short [0x3E])
            = js ''Description should be at least 20 characters (current: 1)'')"
proof (intro conjI impI)
  have ne: "fml \<noteq> []"
    using assms(3) by auto
  have "js ''description: >'' \<noteq> js ''---''"
    by (simp add: js_Nil js_Cons)
  with assms(3) have "js ''description: >'' \<in> set (filter (\<lambda>line. line \<noteq> js ''---'') fml)"
    by simp
  then have "match_field (js ''description'') (frontmatter fml) \<noteq> None"
    unfolding frontmatter_def by (rule folded_marker_line_found)
  then have "missing_description \<notin> set (check_description (frontmatter fml))"
    by (rule description_found_not_missing)
  then show "missing_description \<notin> set (skillFrontmatter path p)"
    using missing_description_not_from_name
    by (simp add: skillFrontmatter_blocks [OF assms(1,2) ne])
next
  assume a: "filter (\<lambda>line. line \<noteq> js ''---'') fml = pre @ [js ''description: >'']
          \<and> (\<forall>l\<in>set pre. \<not> prefix (js ''description:'') l
                \<and> (\<forall>c\<in>set l. \<not> is_line_terminator c))"
  then have fm: "frontmatter fml = join_lines (pre @ [js ''description: >''])"
    by (simp add: frontmatter_def)
  from a have pre: "\<forall>l\<in>set pre. \<not> prefix (js ''description:'') l \<and> (\<forall>c\<in>set l. \<not> is_line_terminator c)"
    by blast
  have s: "match_field (js ''description'') (frontmatter fml) = Some [0x3E]"
    unfolding fm by (simp add: last_line_only(1) [OF pre] folded_marker_alone)
  have b: "match_block (frontmatter fml) = None"
    unfolding fm by (simp add: last_line_only(2) [OF pre] folded_marker_alone)
  show "check_description (frontmatter fml) = [description_too_short [0x3E]]"
    by (simp add: check_description_def s b folded_marker_value)
next
  show "detail (description_too_short [0x3E])
            = js ''Description should be at least 20 characters (current: 1)''"
    by (rule folded_marker_value)
qed


lemma folded_marker_last_line_example:
  "endsWith (name (skill_doc (js ''skills/my-skill/SKILL.md'') folded_last_frontmatter 3))
     (js ''SKILL.md'')
   \<and> js ''description: >'' \<in> set folded_last_frontmatter
   \<and> filter (\<lambda>line. line \<noteq> js ''---'') folded_last_frontmatter
       = [js ''name: my-skill''] @ [js ''description: >'']
   \<and> \<not> prefix (js ''description:'') (js ''name: my-skill'')
   \<and> missing_description
       \<notin> set (skillFrontmatter slash_path
                (skill_doc (js ''skills/my-skill/SKILL.md'') folded_last_frontmatter 3))
   \<and> check_description (frontmatter folded_last_frontmatter) = [description_too_short [0x3E]]"
proof -
  let ?d = "skill_doc (js ''skills/my-skill/SKILL.md'') folded_last_frontmatter 3"
  have h1: "endsWith (name ?d) (js ''SKILL.md'')"
    by (rule skill_doc_marked)
  have h2: "frontMatterLines ?d = Some folded_last_frontmatter"
    by (simp add: skill_doc_def)
  have h3: "js ''description: >'' \<in> set folded_last_frontmatter"
    by (simp add: folded_last_frontmatter_def)
  have h4: "filter (\<lambda>line. line \<noteq> js ''---'') folded_last_frontmatter
       = [js ''name: my-skill''] @ [js ''description: >'']"
    by (simp add: folded_last_frontmatter_def js_Nil js_Cons)
  have h5: "\<not> prefix (js ''description:'') (js ''name: my-skill'')"
    by (simp add: js_Nil js_Cons)
  have h6: "\<forall>c\<in>set (js ''name: my-skill''). \<not> is_line_terminator c"
    by (simp add: js_Nil js_Cons char_classes)
  show ?thesis
    using folded_marker_last_line [OF h1 h2 h3, of slash_path "[js ''name: my-skill'']"]
      h1 h3 h4 h5 h6
    by simp
qed

text \<open>
  C10. Stripping the quotes of the name removes at most one quote at the start and at
  most one at the end, and removes them when they differ as well. So for a name field
  whose trimmed value is an empty quoted string the name is the empty string: the rule
  reports the kebab-case diagnostic for it and no missing name.
\<close>

theorem C10_quote_stripping:
  "(\<exists>a b. s = a @ strip_quotes s @ b \<and> length a \<le> 1 \<and> length b \<le> 1
       \<and> list_all is_quote (a @ b))
   \<and> (is_quote q1 \<and> is_quote q2 \<longrightarrow> strip_quotes (q1 # x @ [q2]) = x)
   \<and> (endsWith (name p) (js ''SKILL.md'') \<and> frontMatterLines p = Some fml \<and> fml \<noteq> []
       \<and> match_field (js ''name'') (frontmatter fml) = Some g
       \<and> (trim g = [DQ, DQ] \<or> trim g = [SQ, SQ]) \<longrightarrow>
      name_value g = []
      \<and> invalid_name_format [] \<in> set (skillFrontmatter path p)
      \<and> missing_name \<notin> set (skillFrontmatter path p)
      \<and> check_name path p (frontmatter fml) =
          invalid_name_format []
          # (if [] \<noteq> basename path (dirname path (name p))
             then [name_directory_mismatch [] (basename path (dirname path (name p)))]
             else []))"
proof (intro conjI impI)
  show "\<exists>a b. s = a @ strip_quotes s @ b \<and> length a \<le> 1 \<and> length b \<le> 1
       \<and> list_all is_quote (a @ b)"
    by (rule strip_quotes_removes)
next
  assume "is_quote q1 \<and> is_quote q2"
  then show "strip_quotes (q1 # x @ [q2]) = x"
    by (simp add: strip_quotes_pair)
next
  assume a: "endsWith (name p) (js ''SKILL.md'') \<and> frontMatterLines p = Some fml \<and> fml \<noteq> []
       \<and> match_field (js ''name'') (frontmatter fml) = Some g
       \<and> (trim g = [DQ, DQ] \<or> trim g = [SQ, SQ])"
  let ?dn = "basename path (dirname path (name p))"
  from a have nv: "name_value g = []"
    by (auto simp: name_value_def strip_quotes_def char_classes)
  have v: "validate_name [] ?dn =
      invalid_name_format [] # (if [] \<noteq> ?dn then [name_directory_mismatch [] ?dn] else [])"
    by (simp add: validate_name_def matchers char_classes)
  have c: "check_name path p (frontmatter fml) = validate_name [] ?dn"
    using a nv by (simp add: check_name_present)
  have s: "skillFrontmatter path p
      = check_name path p (frontmatter fml) @ check_description (frontmatter fml)"
    using a by (simp add: skillFrontmatter_blocks)
  have nd: "missing_name \<notin> set (check_description (frontmatter fml))"
    by (rule name_diagnostic_not_from_description) (simp add: missing_name_def)
  have nn: "missing_name \<notin> set (check_name path p (frontmatter fml))"
    unfolding c v by (auto simp: diagnostics js_Nil js_Cons)
  show "name_value g = []"
    by (rule nv)
  show "invalid_name_format [] \<in> set (skillFrontmatter path p)"
    unfolding s c v by simp
  show "missing_name \<notin> set (skillFrontmatter path p)"
    unfolding s using nd nn by simp
  show "check_name path p (frontmatter fml) =
          invalid_name_format [] # (if [] \<noteq> ?dn then [name_directory_mismatch [] ?dn] else [])"
    unfolding c v ..
qed

theorem C10_witness:
  "is_quote SQ \<and> is_quote DQ \<and> strip_quotes (SQ # [0x61] @ [DQ]) = [0x61]
   \<and> endsWith (name (skill_doc (js ''skills/my-skill/SKILL.md'') (named_frontmatter [DQ, DQ]) 3))
        (js ''SKILL.md'')
   \<and> match_field (js ''name'') (frontmatter (named_frontmatter [DQ, DQ])) = Some [DQ, DQ]
   \<and> trim [DQ, DQ] = [DQ, DQ]
   \<and> name_value [DQ, DQ] = []
   \<and> invalid_name_format []
       \<in> set (skillFrontmatter slash_path
                (skill_doc (js ''skills/my-skill/SKILL.md'') (named_frontmatter [DQ, DQ]) 3))
   \<and> missing_name
       \<notin> set (skillFrontmatter slash_path
                (skill_doc (js ''skills/my-skill/SKILL.md'') (named_frontmatter [DQ, DQ]) 3))"
proof -
  let ?fml = "named_frontmatter [DQ, DQ]"
  let ?d = "skill_doc (js ''skills/my-skill/SKILL.md'') ?fml 3"
  have q: "is_quote SQ \<and> is_quote DQ"
    by (simp add: is_quote_def)
  have h1: "endsWith (name ?d) (js ''SKILL.md'')"
    by (rule skill_doc_marked)
  have h2: "frontMatterLines ?d = Some ?fml"
    by (simp add: skill_doc_def)
  have h3: "?fml \<noteq> []"
    by (simp add: named_frontmatter_def)
  have h4: "match_field (js ''name'') (frontmatter ?fml) = Some [DQ, DQ]"
    by (simp add: name_field_of_named_frontmatter)
  have h5: "trim [DQ, DQ] = [DQ, DQ]"
    by (simp add: trim_def char_classes)
  show ?thesis
    using C10_quote_stripping [of "SQ # [0x61] @ [DQ]" SQ DQ "[0x61]" ?d ?fml "[DQ, DQ]" slash_path]
      q h1 h2 h3 h4 h5
    by simp
qed

section \<open>Whole documents\<close>

text \<open>
  When the values that the rule itself extracts meet every constraint, neither rule
  reports: the checks listed are all the checks there are. This says nothing of a
  document whose description the block pattern extracts wrongly.
\<close>

lemma extracted_values_pass:
  assumes "endsWith (name p) (js ''SKILL.md'')"
    and "frontMatterLines p = Some fml" and "fml \<noteq> []"
    and "match_field (js ''name'') (frontmatter fml) = Some g"
    and "is_kebab (name_value g)" and "length (name_value g) \<le> 64"
    and "\<not> has_reserved_word (name_value g)" and "\<not> has_double_hyphen (name_value g)"
    and "\<not> has_xml_tag (name_value g)"
    and "name_value g = basename path (dirname path (name p))"
    and "match_field (js ''description'') (frontmatter fml) \<noteq> None
         \<or> match_block (frontmatter fml) \<noteq> None"
    and "d = description_value (match_field (js ''description'') (frontmatter fml))
               (match_block (frontmatter fml))"
    and "20 \<le> length d" and "length d \<le> 1024" and "\<not> has_xml_tag d"
    and "totalLines p \<le> WARNING_LINES" and "wordCount p \<le> WARNING_WORDS"
  shows "skillLength p = [] \<and> skillFrontmatter path p = []"
proof -
  have l: "skillLength p = []"
    using assms(1,16,17)
    by (simp add: skillLength_def check_line_count_def check_word_count_def
        MAX_LINES_def WARNING_LINES_def MAX_WORDS_def WARNING_WORDS_def)
  have n: "check_name path p (frontmatter fml) = []"
    using assms(4-10) by (simp add: check_name_present validate_name_def)
  have c: "check_description (frontmatter fml) = []"
    using assms(11-15) by (auto simp: check_description_def Let_def validate_description_def)
  show ?thesis
    using l n c by (simp add: skillFrontmatter_blocks [OF assms(1-3)])
qed

lemma single_line_document_passes:
  "endsWith (name (skill_doc (js ''skills/my-skill/SKILL.md'') good_frontmatter 3)) (js ''SKILL.md'')
   \<and> match_field (js ''name'') (frontmatter good_frontmatter) = Some (js ''my-skill'')
   \<and> name_value (js ''my-skill'') = js ''my-skill''
   \<and> is_kebab (js ''my-skill'') \<and> length (js ''my-skill'') \<le> 64
   \<and> \<not> has_reserved_word (js ''my-skill'') \<and> \<not> has_double_hyphen (js ''my-skill'')
   \<and> \<not> has_xml_tag (js ''my-skill'')
   \<and> basename slash_path (dirname slash_path (js ''skills/my-skill/SKILL.md'')) = js ''my-skill''
   \<and> description_value (match_field (js ''description'') (frontmatter good_frontmatter))
        (match_block (frontmatter good_frontmatter))
       = js ''Analyze tables for cost optimization.''
   \<and> length (js ''Analyze tables for cost optimization.'') = 37
   \<and> \<not> has_xml_tag (js ''Analyze tables for cost optimization.'')
   \<and> totalLines (skill_doc (js ''skills/my-skill/SKILL.md'') good_frontmatter 3) = 8
   \<and> wordCount (skill_doc (js ''skills/my-skill/SKILL.md'') good_frontmatter 3) = 6
   \<and> skillLength (skill_doc (js ''skills/my-skill/SKILL.md'') good_frontmatter 3) = []
   \<and> skillFrontmatter slash_path (skill_doc (js ''skills/my-skill/SKILL.md'') good_frontmatter 3)
       = []"
proof -
  let ?p = "skill_doc (js ''skills/my-skill/SKILL.md'') good_frontmatter 3"
  let ?fm = "frontmatter good_frontmatter"
  let ?d = "js ''Analyze tables for cost optimization.''"
  have h1: "endsWith (name ?p) (js ''SKILL.md'')"
    by (rule skill_doc_marked)
  have h2: "frontMatterLines ?p = Some good_frontmatter"
    by (simp add: skill_doc_def)
  have h3: "good_frontmatter \<noteq> []"
    by (simp add: good_frontmatter_def)
  have h4: "match_field (js ''name'') ?fm = Some (js ''my-skill'')"
    by (simp add: good_frontmatter_def matchers char_classes)
  have nv: "name_value (js ''my-skill'') = js ''my-skill''"
    by (simp add: matchers char_classes)
  have k: "is_kebab (js ''my-skill'')" "length (js ''my-skill'') \<le> 64"
    "\<not> has_reserved_word (js ''my-skill'')" "\<not> has_double_hyphen (js ''my-skill'')"
    "\<not> has_xml_tag (js ''my-skill'')"
    by (simp_all add: matchers char_classes)
  have dn: "basename slash_path (dirname slash_path (js ''skills/my-skill/SKILL.md''))
      = js ''my-skill''"
    by (simp add: slash_path_def js_Nil js_Cons)
  have nm: "name ?p = js ''skills/my-skill/SKILL.md''"
    by (simp add: skill_doc_def)
  have s: "match_field (js ''description'') ?fm = Some ([DQ] @ ?d @ [DQ])"
    by (simp add: good_frontmatter_def matchers char_classes)
  have b: "match_block ?fm = None"
    by (simp add: good_frontmatter_def matchers char_classes)
  have dv: "description_value (match_field (js ''description'') ?fm) (match_block ?fm) = ?d"
    unfolding s b by (simp add: description_value_def matchers char_classes)
  have len: "length ?d = 37"
    by (simp add: js_def)
  have x: "\<not> has_xml_tag ?d"
    by (simp add: matchers char_classes)
  have t: "totalLines ?p = 8"
    by (simp add: totalLines_skill_doc good_frontmatter_def)
  have r3: "replicate 3 x = [x, x, x]" for x :: jsstring
    by (simp add: numeral_3_eq_3)
  have w: "wordCount ?p = 6"
    by (simp add: wordCount_def skill_doc_def r3 split_ws.simps js_Nil js_Cons char_classes)
  have "skillLength ?p = [] \<and> skillFrontmatter slash_path ?p = []"
  proof (rule extracted_values_pass [OF h1 h2 h3 h4, where d = ?d])
    show "is_kebab (name_value (js ''my-skill''))" "length (name_value (js ''my-skill'')) \<le> 64"
      "\<not> has_reserved_word (name_value (js ''my-skill''))"
      "\<not> has_double_hyphen (name_value (js ''my-skill''))"
      "\<not> has_xml_tag (name_value (js ''my-skill''))"
      using k by (simp_all add: nv)
    show "name_value (js ''my-skill'') = basename slash_path (dirname slash_path (name ?p))"
      by (simp only: nv nm dn)
    show "match_field (js ''description'') ?fm \<noteq> None \<or> match_block ?fm \<noteq> None"
      by (simp add: s)
    show "?d = description_value (match_field (js ''description'') ?fm) (match_block ?fm)"
      by (simp only: dv)
    show "20 \<le> length ?d" "length ?d \<le> 1024"
      by (simp_all add: len)
    show "\<not> has_xml_tag ?d"
      by (rule x)
    show "totalLines ?p \<le> WARNING_LINES"
      by (simp add: t WARNING_LINES_def)
    show "wordCount ?p \<le> WARNING_WORDS"
      by (simp add: w WARNING_WORDS_def)
  qed
  with h1 h4 nv k dn dv len x t w show ?thesis
    by (intro conjI) simp_all
qed

text \<open>
  C1, evaluated on a document that meets every constraint: in the directory \<open>my-skill\<close>,
  with the name \<open>my-skill\<close>, six words on three body lines, and a description folded
  over two lines that reads \<open>Analyze tables for cost optimization.\<close>, 37 characters
  without a tag. The length rule and the checks of the name report nothing, but the
  block pattern stops at the end of the first line: the rule takes
  \<open>Analyze tables for\<close> as the description and reports it as too short, with the
  length 18. The same description on a single line passes.
\<close>

theorem C1_folded_description_reported:
  "skillLength (skill_doc (js ''skills/my-skill/SKILL.md'') folded_description_frontmatter 3) = []
   \<and> check_name slash_path
        (skill_doc (js ''skills/my-skill/SKILL.md'') folded_description_frontmatter 3)
        (frontmatter folded_description_frontmatter) = []
   \<and> length (js ''Analyze tables for cost optimization.'') = 37
   \<and> \<not> has_xml_tag (js ''Analyze tables for cost optimization.'')
   \<and> description_value
        (match_field (js ''description'') (frontmatter folded_description_frontmatter))
        (match_block (frontmatter folded_description_frontmatter))
       = js ''Analyze tables for''
   \<and> skillFrontmatter slash_path
        (skill_doc (js ''skills/my-skill/SKILL.md'') folded_description_frontmatter 3)
       = [description_too_short (js ''Analyze tables for'')]
   \<and> detail (description_too_short (js ''Analyze tables for''))
       = js ''Description should be at least 20 characters (current: 18)''"
proof -
  let ?p = "skill_doc (js ''skills/my-skill/SKILL.md'') folded_description_frontmatter 3"
  let ?fm = "frontmatter folded_description_frontmatter"
  have t: "totalLines ?p = 9"
    by (simp add: totalLines_skill_doc folded_description_frontmatter_def)
  have r3: "replicate 3 x = [x, x, x]" for x :: jsstring
    by (simp add: numeral_3_eq_3)
  have w: "wordCount ?p = 6"
    by (simp add: wordCount_def skill_doc_def r3 split_ws.simps js_Nil js_Cons char_classes)
  have l: "skillLength ?p = []"
    using skill_doc_marked [of folded_description_frontmatter 3]
    by (simp add: skillLength_def t w check_line_count_def check_word_count_def
        MAX_LINES_def WARNING_LINES_def MAX_WORDS_def WARNING_WORDS_def)
  have n: "check_name slash_path ?p ?fm = []"
    by (simp add: folded_description_frontmatter_def rule_defs matchers char_classes)
  have len: "length (js ''Analyze tables for cost optimization.'') = 37"
    by (simp add: js_def)
  have x: "\<not> has_xml_tag (js ''Analyze tables for cost optimization.'')"
    by (simp add: matchers char_classes)
  have d: "description_value (match_field (js ''description'') ?fm) (match_block ?fm)
      = js ''Analyze tables for''"
    by (simp add: folded_description_frontmatter_def rule_defs matchers char_classes)
  have f: "skillFrontmatter slash_path ?p = [description_too_short (js ''Analyze tables for'')]"
    by (simp add: folded_description_frontmatter_def rule_defs matchers char_classes)
  have m: "detail (description_too_short (js ''Analyze tables for''))
      = js ''Description should be at least 20 characters (current: 18)''"
    by (simp add: description_too_short_def show_nat.simps js_Nil js_Cons)
  from l n len x d f m show ?thesis
    by (intro conjI)
qed

end
